theory Spec2Isabelle
  imports Main "HOL-Library.Code_Target_Numeral" "HOL-Library.Sublist"
begin

section \<open>JavaScript values and their string conversion\<close>

text \<open>
  The gateway of \<^verbatim>\<open>src/gateways/createGateway.js\<close> stores URL parameters in a plain
  JavaScript object and reads them back by string concatenation. The values that occur
  are \<^verbatim>\<open>undefined\<close>, booleans, numbers, strings and arrays of values.

  Strings are \<open>char list\<close>: a \<open>char\<close> stands for the UTF-16 code unit of the same
  number, so the model covers the strings whose code units are below 256; on them
  \<^verbatim>\<open>encodeURI\<close> raises no error. Numbers are \<open>int\<close>: the model covers the integer-valued
  numbers of magnitude below \<open>2 ^ 53\<close>, which JavaScript holds exactly and prints in plain
  decimal notation.
\<close>

datatype jsval =
    JUndefined
  | JBool bool
  | JNum int
  | JStr string
  | JArr "jsval list"

text \<open>\<^verbatim>\<open>if (x)\<close>: the truth value of a JavaScript value.\<close>

fun truthy :: "jsval \<Rightarrow> bool" where
  "truthy JUndefined = False"
| "truthy (JBool b) = b"
| "truthy (JNum n) = (n \<noteq> 0)"
| "truthy (JStr s) = (s \<noteq> [])"
| "truthy (JArr xs) = True"

definition digit_char :: "nat \<Rightarrow> char" where
  "digit_char d = ''0123456789'' ! (d mod 10)"

fun string_of_nat :: "nat \<Rightarrow> string" where
  "string_of_nat n =
     (if n < 10 then [digit_char n]
      else string_of_nat (n div 10) @ [digit_char (n mod 10)])"

declare string_of_nat.simps [simp del]

definition string_of_int :: "int \<Rightarrow> string" where
  "string_of_int i =
     (if i < 0 then CHR ''-'' # string_of_nat (nat (- i)) else string_of_nat (nat i))"

text \<open>
  \<open>toString\<close> is the conversion that \<^verbatim>\<open>'' + v\<close> applies; \<open>join\<close> is
  \<^verbatim>\<open>Array.prototype.join\<close> with its default separator, which prints an
  \<^verbatim>\<open>undefined\<close> element as the empty string.
\<close>

fun toString :: "jsval \<Rightarrow> string" and join :: "jsval list \<Rightarrow> string" where
  "toString JUndefined = ''undefined''"
| "toString (JBool b) = (if b then ''true'' else ''false'')"
| "toString (JNum n) = string_of_int n"
| "toString (JStr s) = s"
| "toString (JArr xs) = join xs"
| "join [] = []"
| "join (x # xs) =
     (case x of JUndefined \<Rightarrow> [] | _ \<Rightarrow> toString x)
       @ (if xs = [] then [] else CHR '','' # join xs)"

text \<open>\<^verbatim>\<open>_.isArray\<close> of underscore.\<close>

fun isArray :: "jsval \<Rightarrow> bool" where
  "isArray (JArr xs) = True"
| "isArray v = False"

section \<open>The built-in \<^verbatim>\<open>encodeURI\<close>\<close>

text \<open>
  \<^verbatim>\<open>encodeURI\<close> leaves the letters, the digits, the reserved characters
  \<^verbatim>\<open>; / ? : @ & = + $ ,\<close>, the marks \<^verbatim>\<open>- _ . ! ~ * ' ( )\<close> and \<^verbatim>\<open>#\<close> as they are and
  writes every other character as the percent-escaped bytes of its UTF-8 encoding.
\<close>

definition uri_unescaped :: "char \<Rightarrow> bool" where
  "uri_unescaped c \<longleftrightarrow>
     c \<in> set (''ABCDEFGHIJKLMNOPQRSTUVWXYZabcdefghijklmnopqrstuvwxyz0123456789''
                @ '';/?:@&=+$,'' @ ''-_.!~*()'' @ [CHR 0x27] @ ''#'')"

definition hex_digit :: "nat \<Rightarrow> char" where
  "hex_digit d = ''0123456789ABCDEF'' ! (d mod 16)"

definition percent :: "nat \<Rightarrow> string" where
  "percent b = [CHR ''%'', hex_digit (b div 16), hex_digit (b mod 16)]"

definition encode_char :: "char \<Rightarrow> string" where
  "encode_char c =
     (let n = (of_char c :: nat)
      in if uri_unescaped c then [c]
         else if n < 128 then percent n
         else percent (192 + n div 64) @ percent (128 + n mod 64))"

definition encodeURI :: "string \<Rightarrow> string" where
  "encodeURI s = concat (map encode_char s)"

section \<open>Objects and the store\<close>

text \<open>
  A plain object is the list of its own properties in the order in which \<^verbatim>\<open>for ... in\<close>
  visits them: the array-index keys (the canonical decimal strings of the integers below
  \<open>2 ^ 32 - 1\<close>) in ascending order first, then the other keys in the order of their
  creation. An assignment \<^verbatim>\<open>obj[key] = value\<close> (\<open>put\<close>) keeps the place of a key that
  exists and creates a new key otherwise.
\<close>

type_synonym obj = "(string \<times> jsval) list"

definition is_digit :: "char \<Rightarrow> bool" where
  "is_digit c \<longleftrightarrow> 48 \<le> (of_char c :: nat) \<and> (of_char c :: nat) \<le> 57"

definition nat_of_string :: "string \<Rightarrow> nat" where
  "nat_of_string s = foldl (\<lambda>n c. 10 * n + ((of_char c :: nat) - 48)) 0 s"

definition is_array_index :: "string \<Rightarrow> bool" where
  "is_array_index k \<longleftrightarrow>
     k \<noteq> [] \<and> list_all is_digit k \<and> string_of_nat (nat_of_string k) = k
       \<and> nat_of_string k < 4294967295"

fun insert_index :: "string \<Rightarrow> jsval \<Rightarrow> obj \<Rightarrow> obj" where
  "insert_index k v [] = [(k, v)]"
| "insert_index k v ((k', v') # ps) =
     (if is_array_index k' \<and> nat_of_string k' < nat_of_string k
      then (k', v') # insert_index k v ps
      else (k, v) # (k', v') # ps)"

definition put :: "string \<Rightarrow> jsval \<Rightarrow> obj \<Rightarrow> obj" where
  "put k v ps =
     (if k \<in> set (map fst ps)
      then map (\<lambda>(k', v'). if k' = k then (k', v) else (k', v')) ps
      else if is_array_index k then insert_index k v ps
      else ps @ [(k, v)])"

text \<open>
  \<^verbatim>\<open>_.extend(obj, source)\<close> of underscore assigns every property of \<open>source\<close> to
  \<open>obj\<close>, in the order of \<open>source\<close>, and returns \<open>obj\<close> (\<open>extend_obj\<close>: the records of
  this theory have an \<open>extend\<close> of their own).
\<close>

definition extend_obj :: "obj \<Rightarrow> obj \<Rightarrow> obj" where
  "extend_obj ob source = fold (\<lambda>(k, v). put k v) source ob"

text \<open>An object literal \<^verbatim>\<open>{k1 : v1, k2 : v2, ...}\<close> creates its properties from left to right.\<close>

definition object :: "(string \<times> jsval) list \<Rightarrow> obj" where
  "object kvs = extend_obj [] kvs"

text \<open>
  The parameter objects are shared by reference: the constructor stores the caller's
  \<^verbatim>\<open>params\<close> object itself in the settings. The store maps the address of each parameter
  object to its contents; \<open>fresh\<close> is the next address that an object literal takes.
\<close>

record heap =
  objs :: "nat \<Rightarrow> obj"
  fresh :: nat

definition alloc :: "obj \<Rightarrow> heap \<Rightarrow> nat \<times> heap" where
  "alloc ob h = (fresh h, h\<lparr>objs := (objs h)(fresh h := ob), fresh := Suc (fresh h)\<rparr>)"

definition empty_heap :: heap where
  "empty_heap = \<lparr>objs = (\<lambda>a. []), fresh = 0\<rparr>"

section \<open>The gateway (\<^verbatim>\<open>createGateway.js\<close>)\<close>

text \<open>
  The argument of the constructor is an object literal in which every key may be missing.
  The named constructors of \<^verbatim>\<open>index.js\<close> pass the key \<^verbatim>\<open>documentType\<close>, so the record has
  it too.
\<close>

record args =
  a_method :: "string option"
  a_responseType :: "string option"
  a_params :: "nat option"
  a_test :: "bool option"
  a_documentType :: "string option"

definition no_args :: args where
  "no_args = \<lparr>a_method = None, a_responseType = None, a_params = None, a_test = None,
     a_documentType = None\<rparr>"

text \<open>\<^verbatim>\<open>gateway.settings\<close>: the defaults, overwritten by the keys of the argument.\<close>

record settings =
  s_method :: string
  s_responseType :: string
  s_params :: nat
  s_test :: bool
  s_documentType :: "string option"

text \<open>
  The gateway object: the constructor gives it the property \<^verbatim>\<open>settings\<close>, \<open>getBase\<close>
  gives it \<^verbatim>\<open>base\<close>. \<open>this_test\<close> and \<open>this_method\<close> are what \<^verbatim>\<open>this.test\<close> and
  \<^verbatim>\<open>this.method\<close> read: own properties that no code of the repository writes, so they
  are \<^verbatim>\<open>undefined\<close> unless the caller assigns them.
\<close>

record gateway =
  settings :: settings
  base :: "string option"
  this_test :: jsval
  this_method :: jsval

definition getBase :: "gateway \<Rightarrow> string \<times> gateway" where
  "getBase g =
     (let b = ''http://eutils.ncbi.nlm.nih.gov/entrez/eutils/'' @ s_method (settings g)
                @ ''.fcgi?''
      in (b, g\<lparr>base := Some b\<rparr>))"

text \<open>\<open>addParams\<close> returns the reference \<^verbatim>\<open>this.settings.params\<close> and the updated store.\<close>

definition addParams :: "gateway \<Rightarrow> obj \<Rightarrow> heap \<Rightarrow> nat \<times> heap" where
  "addParams g params h =
     (let a = s_params (settings g)
      in (a, h\<lparr>objs := (objs h)(a := extend_obj (objs h a) params)\<rparr>))"

fun elements :: "jsval \<Rightarrow> jsval list" where
  "elements (JArr xs) = xs"
| "elements v = []"

definition addIds :: "gateway \<Rightarrow> jsval \<Rightarrow> heap \<Rightarrow> nat \<times> heap" where
  "addIds g ids h =
     (let idString = (if isArray ids then JStr (join (elements ids)) else ids)
      in addParams g (object [(''id'', idString)]) h)"

text \<open>The loop \<^verbatim>\<open>for (var key in this.settings.params)\<close> of \<open>generateUrl\<close>.\<close>

fun params_loop :: "string \<Rightarrow> obj \<Rightarrow> string" where
  "params_loop url [] = url"
| "params_loop url ((key, v) # ps) =
     params_loop ((url @ key @ ''='' @ toString v) @ ''&'') ps"

definition generateUrl :: "gateway \<Rightarrow> heap \<Rightarrow> string \<times> gateway" where
  "generateUrl g h =
     (let (url, g') = getBase g;
          url = params_loop url (objs h (s_params (settings g')));
          url = take (length url - 1) url
      in (encodeURI url, g'))"

text \<open>
  The constructor \<^verbatim>\<open>module.exports = function(args)\<close>. The literal of the defaults
  creates an empty parameter object at every call; the argument's \<^verbatim>\<open>params\<close> replaces
  the reference to it when the key is there.
\<close>

definition createGateway :: "args \<Rightarrow> heap \<Rightarrow> gateway \<times> heap" where
  "createGateway ar h =
     (let (p, h1) = alloc (object []) h;
          gateway = \<lparr>settings =
              \<lparr>s_method = (case a_method ar of None \<Rightarrow> ''esearch'' | Some m \<Rightarrow> m),
               s_responseType = (case a_responseType ar of None \<Rightarrow> ''json'' | Some r \<Rightarrow> r),
               s_params = (case a_params ar of None \<Rightarrow> p | Some q \<Rightarrow> q),
               s_test = (case a_test ar of None \<Rightarrow> False | Some t \<Rightarrow> t),
               s_documentType = a_documentType ar\<rparr>,
            base = None, this_test = JUndefined, this_method = JUndefined\<rparr>;
          (r, h2) = addParams gateway
                      (object [(''retmode'', JStr (s_responseType (settings gateway)))]) h1
      in (gateway, h2))"

text \<open>
  \<open>send\<close> and \<open>get\<close>. A promise settles as \<open>Fulfilled\<close> or \<open>Rejected\<close>. The HTTP client
  \<^verbatim>\<open>popsicle\<close> is the environment: a function from the requested URL to the promise of
  its response. \<open>send\<close> returns the list of the requests that it issued beside its
  promise, so that a call without network traffic is one whose list is empty. The
  promise of \<open>send\<close> holds a string in test mode and a response otherwise;
  \<^verbatim>\<open>document.body\<close> of a string is \<^verbatim>\<open>undefined\<close>.
\<close>

datatype ('e, 'a) promise = Fulfilled 'a | Rejected 'e

record response =
  status :: nat
  body :: string

datatype document = TestString string | Response response

fun body_of :: "document \<Rightarrow> jsval" where
  "body_of (TestString s) = JUndefined"
| "body_of (Response r) = JStr (body r)"

definition send ::
  "(string \<Rightarrow> ('e, response) promise) \<Rightarrow> gateway \<Rightarrow> heap
     \<Rightarrow> (string list \<times> ('e, document) promise) \<times> gateway" where
  "send popsicle g h =
     (let (url, g') = generateUrl g h
      in if truthy (this_test g')
         then (([], Fulfilled (TestString (''Test call to NCBI eUtils: '' @ url))), g')
         else (([url],
                (case popsicle url of
                   Fulfilled r \<Rightarrow> Fulfilled (Response r)
                 | Rejected e \<Rightarrow> Rejected e)), g'))"

text \<open>
  \<open>get\<close>: \<^verbatim>\<open>this.send().then(document => ...)\<close>. The parser factory
  \<^verbatim>\<open>createParser\<close> of \<^verbatim>\<open>../documents\<close> and the caller's callback are parameters; either
  may throw, which rejects the promise that \<^verbatim>\<open>then\<close> returns.
\<close>

definition get ::
  "(jsval \<Rightarrow> jsval \<Rightarrow> ('e, 'p) promise) \<Rightarrow> ('p \<Rightarrow> ('e, 'r) promise)
     \<Rightarrow> (string \<Rightarrow> ('e, response) promise) \<Rightarrow> gateway \<Rightarrow> heap
     \<Rightarrow> (string list \<times> ('e, 'r) promise) \<times> gateway" where
  "get createParser callback popsicle g h =
     (let ((io, p), g') = send popsicle g h
      in ((io,
           (case p of
              Rejected e \<Rightarrow> Rejected e
            | Fulfilled document \<Rightarrow>
                (case createParser (body_of document) (this_method g') of
                   Rejected e \<Rightarrow> Rejected e
                 | Fulfilled parser \<Rightarrow> callback parser))), g'))"

section \<open>The named constructors (\<^verbatim>\<open>index.js\<close>)\<close>

text \<open>
  Each constructor evaluates the literal of its \<^verbatim>\<open>params\<close>, a new object, and passes
  its reference to \<open>createGateway\<close> with the key \<^verbatim>\<open>documentType\<close>.
\<close>

definition pubmedSearch :: "jsval \<Rightarrow> int \<Rightarrow> int \<Rightarrow> heap \<Rightarrow> gateway \<times> heap" where
  "pubmedSearch query start end' h =
     (let (p, h1) = alloc (object [(''db'', JStr ''pubmed''), (''term'', query),
                                   (''retstart'', JNum start),
                                   (''retmax'', JNum (end' - start))]) h
      in createGateway (no_args\<lparr>a_documentType := Some ''esearch'', a_params := Some p\<rparr>) h1)"

definition pubmedSummary :: "jsval \<Rightarrow> heap \<Rightarrow> gateway \<times> heap" where
  "pubmedSummary ids h =
     (let (p, h1) = alloc (object [(''db'', JStr ''pubmed'')]) h;
          (gateway, h2) =
            createGateway (no_args\<lparr>a_documentType := Some ''esummary'', a_params := Some p\<rparr>) h1;
          (r, h3) = addIds gateway ids h2
      in (gateway, h3))"

definition pubmedRecord :: "jsval \<Rightarrow> heap \<Rightarrow> gateway \<times> heap" where
  "pubmedRecord ids h =
     (let (p, h1) = alloc (object [(''db'', JStr ''pubmed'')]) h;
          (gateway, h2) =
            createGateway (no_args\<lparr>a_documentType := Some ''efetch'',
                             a_responseType := Some ''xml'', a_params := Some p\<rparr>) h1;
          (r, h3) = addIds gateway ids h2
      in (gateway, h3))"

definition pubmedLinks :: "jsval \<Rightarrow> heap \<Rightarrow> gateway \<times> heap" where
  "pubmedLinks id' h =
     (let (p, h1) = alloc (object [(''db'', JStr ''pubmed''), (''dbfrom'', JStr ''pubmed''),
                                   (''cmd'', JStr ''neighbor'')]) h;
          (gateway, h2) =
            createGateway (no_args\<lparr>a_documentType := Some ''elink'', a_params := Some p\<rparr>) h1;
          (r, h3) = addIds gateway id' h2
      in (gateway, h3))"

section \<open>Sequences of calls\<close>

text \<open>
  The claims about "any sequence of \<open>addParams\<close> and \<open>addIds\<close> calls" are stated over
  lists of calls: \<open>run g cs h\<close> is the store after the calls \<open>cs\<close> on the gateway \<open>g\<close>,
  from left to right. \<open>writes_key k c\<close> says that the call \<open>c\<close> assigns the parameter \<open>k\<close>.
\<close>

datatype call = AddParams obj | AddIds jsval

fun do_call :: "gateway \<Rightarrow> call \<Rightarrow> heap \<Rightarrow> heap" where
  "do_call g (AddParams params) h = snd (addParams g params h)"
| "do_call g (AddIds ids) h = snd (addIds g ids h)"

definition run :: "gateway \<Rightarrow> call list \<Rightarrow> heap \<Rightarrow> heap" where
  "run g cs h = fold (do_call g) cs h"

fun writes_key :: "string \<Rightarrow> call \<Rightarrow> bool" where
  "writes_key k (AddParams params) = (map_of params k \<noteq> None)"
| "writes_key k (AddIds ids) = (k = ''id'')"

text \<open>The parameter object of a gateway in a store, and the test "ends in \<^verbatim>\<open>&\<close>".\<close>

definition params_of :: "gateway \<Rightarrow> heap \<Rightarrow> obj" where
  "params_of g h = objs h (s_params (settings g))"

definition ends_amp :: "string \<Rightarrow> bool" where
  "ends_amp s \<longleftrightarrow> s \<noteq> [] \<and> last s = CHR ''&''"





section \<open>Objects: lookup after assignment and after \<open>extend_obj\<close>\<close>

lemma has_key_iff: "k \<in> set (map fst ps) \<longleftrightarrow> map_of ps k \<noteq> None"
  by (simp add: map_of_eq_None_iff)

lemma map_of_insert_index:
  "map_of ps k = None \<Longrightarrow>
   map_of (insert_index k v ps) x = (if x = k then Some v else map_of ps x)"
  by (induction ps) (auto split: if_splits)

lemma map_of_overwrite:
  "map_of (map (\<lambda>(k', v'). if k' = k then (k', v) else (k', v')) ps) x =
     (if x = k then map_option (\<lambda>_. v) (map_of ps k) else map_of ps x)"
  by (induction ps) auto

lemma map_of_snoc:
  "map_of ps k = None \<Longrightarrow> map_of (ps @ [(k, v)]) x = (if x = k then Some v else map_of ps x)"
  by (induction ps) (auto split: if_splits)

lemma map_of_put: "map_of (put k v ps) x = (if x = k then Some v else map_of ps x)"
proof (cases "map_of ps k")
  case None
  then show ?thesis
    unfolding put_def has_key_iff
    by (simp add: map_of_insert_index map_of_snoc del: map_of_append)
next
  case (Some w)
  then show ?thesis
    unfolding put_def has_key_iff by (simp add: map_of_overwrite)
qed

lemma put_nonempty: "put k v ps \<noteq> []"
proof
  assume "put k v ps = []"
  then have "map_of (put k v ps) k = None" by simp
  then show False by (simp add: map_of_put)
qed

lemma map_of_extend_obj_other:
  "map_of source k = None \<Longrightarrow> map_of (extend_obj ob source) k = map_of ob k"
  unfolding extend_obj_def
  by (induction source arbitrary: ob) (auto simp: map_of_put split: if_splits)

lemma map_of_extend_obj:
  "distinct (map fst source) \<Longrightarrow>
   map_of (extend_obj ob source) x =
     (case map_of source x of Some v \<Rightarrow> Some v | None \<Rightarrow> map_of ob x)"
  unfolding extend_obj_def
proof (induction source arbitrary: ob)
  case Nil
  then show ?case by simp
next
  case (Cons p source)
  obtain k v where p: "p = (k, v)" by (cases p)
  from Cons.prems p have none: "map_of source k = None" and d: "distinct (map fst source)"
    by (auto simp: map_of_eq_None_iff)
  have "map_of (fold (\<lambda>(k, v). put k v) source (put k v ob)) x =
          (case map_of source x of Some v \<Rightarrow> Some v | None \<Rightarrow> map_of (put k v ob) x)"
    by (rule Cons.IH [OF d])
  then show ?case
    using none by (cases "x = k") (simp_all add: p map_of_put split: option.splits)
qed

lemma has_key_extend_obj:
  "map_of ob x \<noteq> None \<Longrightarrow> map_of (extend_obj ob source) x \<noteq> None"
  unfolding extend_obj_def
proof (induction source arbitrary: ob)
  case Nil
  then show ?case by simp
next
  case (Cons p source)
  obtain k v where p: "p = (k, v)" by (cases p)
  from Cons.prems have "map_of (put k v ob) x \<noteq> None"
    by (simp add: map_of_put)
  then have "map_of (fold (\<lambda>(k, v). put k v) source (put k v ob)) x \<noteq> None"
    by (rule Cons.IH)
  then show ?case
    by (simp add: p)
qed

lemma extend_obj_nonempty: "ob \<noteq> [] \<Longrightarrow> extend_obj ob source \<noteq> []"
  unfolding extend_obj_def
proof (induction source arbitrary: ob)
  case Nil
  then show ?case by simp
next
  case (Cons p source)
  obtain k v where p: "p = (k, v)" by (cases p)
  have "fold (\<lambda>(k, v). put k v) source (put k v ob) \<noteq> []"
    by (rule Cons.IH) (rule put_nonempty)
  then show ?case
    by (simp add: p)
qed

section \<open>\<open>encodeURI\<close> and the parameter loop\<close>

lemma encodeURI_append: "encodeURI (xs @ ys) = encodeURI xs @ encodeURI ys"
  by (simp add: encodeURI_def)

lemma encodeURI_unescaped: "list_all uri_unescaped s \<Longrightarrow> encodeURI s = s"
  by (induction s) (simp_all add: encodeURI_def encode_char_def)

lemma hex_digit_not_amp: "hex_digit d \<noteq> CHR ''&''"
proof -
  have "d mod 16 < length ''0123456789ABCDEF''" by simp
  then have "hex_digit d \<in> set ''0123456789ABCDEF''"
    unfolding hex_digit_def by (rule nth_mem)
  then show ?thesis by auto
qed

lemma amp_unescaped: "uri_unescaped CHR ''&''"
  by (simp add: uri_unescaped_def)

lemma encode_char_last: "encode_char c \<noteq> [] \<and> (last (encode_char c) = CHR ''&'' \<longleftrightarrow> c = CHR ''&'')"
  using amp_unescaped
  by (auto simp: encode_char_def percent_def Let_def hex_digit_not_amp)

lemma encodeURI_last:
  "s \<noteq> [] \<Longrightarrow> encodeURI s \<noteq> [] \<and> (last (encodeURI s) = CHR ''&'' \<longleftrightarrow> last s = CHR ''&'')"
proof (induction s rule: rev_induct)
  case Nil
  then show ?case by simp
next
  case (snoc c s)
  have "encodeURI (s @ [c]) = encodeURI s @ encode_char c"
    by (simp add: encodeURI_def)
  then show ?case
    using encode_char_last [of c] by simp
qed

lemma params_loop_concat:
  "params_loop url ps = url @ concat (map (\<lambda>(k, v). k @ ''='' @ toString v @ ''&'') ps)"
  by (induction ps arbitrary: url) auto

lemma params_loop_snoc:
  "params_loop url (ps @ [(k, v)]) = params_loop url ps @ k @ ''='' @ toString v @ ''&''"
  by (simp add: params_loop_concat)

section \<open>The gateway operations on the store\<close>

lemma generateUrl_fst:
  "fst (generateUrl g h) =
     encodeURI (butlast (params_loop
       (''http://eutils.ncbi.nlm.nih.gov/entrez/eutils/'' @ s_method (settings g) @ ''.fcgi?'')
       (params_of g h)))"
  by (simp add: generateUrl_def getBase_def params_of_def Let_def butlast_conv_take)

lemma params_of_addParams:
  "params_of g (snd (addParams g p h)) = extend_obj (params_of g h) p"
  by (simp add: addParams_def params_of_def Let_def)

lemma object_single: "object [(k, v)] = [(k, v)]"
  by (simp add: object_def extend_obj_def put_def)

lemma object_empty: "object [] = []"
  by (simp add: object_def extend_obj_def)

lemma addIds_addParams:
  "addIds g ids h = addParams g [(''id'', if isArray ids then JStr (join (elements ids)) else ids)] h"
  by (simp add: addIds_def Let_def object_single)

lemma params_of_do_call:
  "params_of g (do_call g c h) =
     extend_obj (params_of g h)
       (case c of AddParams p \<Rightarrow> p
        | AddIds ids \<Rightarrow> [(''id'', if isArray ids then JStr (join (elements ids)) else ids)])"
  by (cases c) (simp_all add: params_of_addParams addIds_addParams)

lemma run_nonempty: "params_of g h \<noteq> [] \<Longrightarrow> params_of g (run g cs h) \<noteq> []"
  unfolding run_def
proof (induction cs arbitrary: h)
  case Nil
  then show ?case by simp
next
  case (Cons c cs)
  from Cons.prems have "params_of g (do_call g c h) \<noteq> []"
    by (simp add: params_of_do_call extend_obj_nonempty)
  then have "params_of g (fold (do_call g) cs (do_call g c h)) \<noteq> []"
    by (rule Cons.IH)
  then show ?case by simp
qed

lemma run_has_key:
  "map_of (params_of g h) k \<noteq> None \<Longrightarrow> map_of (params_of g (run g cs h)) k \<noteq> None"
  unfolding run_def
proof (induction cs arbitrary: h)
  case Nil
  then show ?case by simp
next
  case (Cons c cs)
  from Cons.prems have "map_of (params_of g (do_call g c h)) k \<noteq> None"
    by (simp add: params_of_do_call has_key_extend_obj)
  then have "map_of (params_of g (fold (do_call g) cs (do_call g c h))) k \<noteq> None"
    by (rule Cons.IH)
  then show ?case by simp
qed

lemma do_call_keeps:
  "\<not> writes_key k c \<Longrightarrow> map_of (params_of g (do_call g c h)) k = map_of (params_of g h) k"
  by (cases c) (simp_all add: params_of_addParams addIds_addParams map_of_extend_obj_other)

lemma run_keeps:
  "list_all (\<lambda>c. \<not> writes_key k c) cs \<Longrightarrow>
   map_of (params_of g (run g cs h)) k = map_of (params_of g h) k"
  unfolding run_def
proof (induction cs arbitrary: h)
  case Nil
  then show ?case by simp
next
  case (Cons c cs)
  from Cons.prems have c: "\<not> writes_key k c" and cs: "list_all (\<lambda>c. \<not> writes_key k c) cs"
    by simp_all
  have "map_of (params_of g (fold (do_call g) cs (do_call g c h))) k
          = map_of (params_of g (do_call g c h)) k"
    by (rule Cons.IH [OF cs])
  then show ?case
    by (simp add: do_call_keeps [OF c])
qed

lemma createGateway_settings:
  "settings (fst (createGateway ar h)) =
     \<lparr>s_method = (case a_method ar of None \<Rightarrow> ''esearch'' | Some m \<Rightarrow> m),
      s_responseType = (case a_responseType ar of None \<Rightarrow> ''json'' | Some r \<Rightarrow> r),
      s_params = (case a_params ar of None \<Rightarrow> fresh h | Some q \<Rightarrow> q),
      s_test = (case a_test ar of None \<Rightarrow> False | Some t \<Rightarrow> t),
      s_documentType = a_documentType ar\<rparr>"
  by (simp add: createGateway_def alloc_def addParams_def Let_def split: prod.splits)

lemma createGateway_own:
  "this_test (fst (createGateway ar h)) = JUndefined"
  "this_method (fst (createGateway ar h)) = JUndefined"
  "base (fst (createGateway ar h)) = None"
  by (simp_all add: createGateway_def alloc_def addParams_def Let_def split: prod.splits)

lemma createGateway_params:
  "params_of (fst (createGateway ar h)) (snd (createGateway ar h)) =
     put ''retmode'' (JStr (s_responseType (settings (fst (createGateway ar h)))))
       (((objs h)(fresh h := [])) (s_params (settings (fst (createGateway ar h)))))"
  by (simp add: createGateway_def alloc_def addParams_def Let_def params_of_def object_single
      object_empty extend_obj_def split: prod.splits)


lemma createGateway_objs_other:
  "a \<noteq> s_params (settings (fst (createGateway ar h))) \<Longrightarrow> a \<noteq> fresh h \<Longrightarrow>
   objs (snd (createGateway ar h)) a = objs h a"
  by (simp add: createGateway_def alloc_def addParams_def Let_def split: prod.splits)

section \<open>The shape of the built URL\<close>

lemma base_unescaped:
  "list_all uri_unescaped m \<Longrightarrow>
   encodeURI (''http://eutils.ncbi.nlm.nih.gov/entrez/eutils/'' @ m @ ''.fcgi?'' @ rest) =
     ''http://eutils.ncbi.nlm.nih.gov/entrez/eutils/'' @ m @ ''.fcgi?'' @ encodeURI rest"
proof -
  assume m: "list_all uri_unescaped m"
  have a: "list_all uri_unescaped ''http://eutils.ncbi.nlm.nih.gov/entrez/eutils/''"
    by (simp add: uri_unescaped_def)
  have b: "list_all uri_unescaped ''.fcgi?''"
    by (simp add: uri_unescaped_def)
  show ?thesis
    using encodeURI_unescaped [OF a] encodeURI_unescaped [OF b] encodeURI_unescaped [OF m]
    by (simp only: encodeURI_append)
qed

lemma url_of_snoc:
  assumes ps: "params_of g h = qs @ [(k, v)]"
  shows "fst (generateUrl g h) =
     encodeURI (''http://eutils.ncbi.nlm.nih.gov/entrez/eutils/'' @ s_method (settings g)
       @ ''.fcgi?'' @ concat (map (\<lambda>(k, v). k @ ''='' @ toString v @ ''&'') qs)
       @ k @ ''='' @ toString v)"
proof -
  have "butlast (params_loop
       (''http://eutils.ncbi.nlm.nih.gov/entrez/eutils/'' @ s_method (settings g) @ ''.fcgi?'')
       (qs @ [(k, v)])) =
     ''http://eutils.ncbi.nlm.nih.gov/entrez/eutils/'' @ s_method (settings g)
       @ ''.fcgi?'' @ concat (map (\<lambda>(k, v). k @ ''='' @ toString v @ ''&'') qs)
       @ k @ ''='' @ toString v"
    by (simp add: params_loop_concat butlast_append)
  then show ?thesis
    by (simp only: generateUrl_fst ps)
qed

lemma ends_amp_eq: "ends_amp (xs @ CHR ''='' # s) \<longleftrightarrow> ends_amp s"
  by (simp add: ends_amp_def)

lemma ends_amp_encodeURI: "ends_amp (encodeURI s) \<longleftrightarrow> ends_amp s"
proof (cases "s = []")
  case True
  then show ?thesis by (simp add: encodeURI_def)
next
  case False
  then show ?thesis
    using encodeURI_last [of s] by (simp add: ends_amp_def)
qed

section \<open>C1: the built URL\<close>

text \<open>
  Claim C1 says that for every gateway and every parameter mapping the URL of
  \<open>generateUrl\<close> never ends in \<^verbatim>\<open>&\<close> and starts with the base path of the gateway's method.
  The code removes the last separator and then applies \<^verbatim>\<open>encodeURI\<close> to the whole URL,
  which leaves an \<^verbatim>\<open>&\<close> inside a value as it is: a parameter value that ends in \<^verbatim>\<open>&\<close>,
  visited last, gives a URL that ends in \<^verbatim>\<open>&\<close>.
\<close>

theorem generateUrl_amp_counterexample:
  "fst (generateUrl (fst (createGateway no_args empty_heap))
         (snd (addParams (fst (createGateway no_args empty_heap))
                 (object [(''term'', JStr ''a&'')])
                 (snd (createGateway no_args empty_heap)))))
     = ''http://eutils.ncbi.nlm.nih.gov/entrez/eutils/esearch.fcgi?retmode=json&term=a&''"
  by code_simp

text \<open>
  C1, as amended: for a gateway made by the constructor whose method name has only
  characters that \<^verbatim>\<open>encodeURI\<close> leaves unescaped (the five method names are such), after any
  sequence of \<open>addParams\<close> and \<open>addIds\<close> calls, the URL starts with
  \<^verbatim>\<open>http://eutils.ncbi.nlm.nih.gov/entrez/eutils/<method>.fcgi?\<close> for the method of the
  gateway's settings, the parameter mapping is not empty, and the URL ends in \<^verbatim>\<open>&\<close>
  exactly when the value of the parameter visited last, written as a string, ends in
  \<^verbatim>\<open>&\<close>.
\<close>

theorem generateUrl_shape:
  assumes cg: "createGateway ar h0 = (g, h1)"
    and m: "list_all uri_unescaped (s_method (settings g))"
  shows "prefix (''http://eutils.ncbi.nlm.nih.gov/entrez/eutils/'' @ s_method (settings g)
                   @ ''.fcgi?'')
           (fst (generateUrl g (run g cs h1)))
       \<and> params_of g (run g cs h1) \<noteq> []
       \<and> (ends_amp (fst (generateUrl g (run g cs h1))) \<longleftrightarrow>
            ends_amp (toString (snd (last (params_of g (run g cs h1))))))"
proof -
  from cg have g: "g = fst (createGateway ar h0)" and h1: "h1 = snd (createGateway ar h0)"
    by simp_all
  have "params_of g h1 \<noteq> []"
    unfolding g h1 createGateway_params by (rule put_nonempty)
  then have ne: "params_of g (run g cs h1) \<noteq> []"
    by (rule run_nonempty)
  then obtain qs k v where ps: "params_of g (run g cs h1) = qs @ [(k, v)]"
    by (metis rev_exhaust surj_pair)
  let ?rest = "concat (map (\<lambda>(k, v). k @ ''='' @ toString v @ ''&'') qs) @ k @ ''='' @ toString v"
  have url: "fst (generateUrl g (run g cs h1)) =
      ''http://eutils.ncbi.nlm.nih.gov/entrez/eutils/'' @ s_method (settings g) @ ''.fcgi?''
        @ encodeURI ?rest"
    unfolding url_of_snoc [OF ps] by (rule base_unescaped [OF m])
  have "ends_amp (encodeURI ?rest) \<longleftrightarrow> ends_amp (toString v)"
    unfolding ends_amp_encodeURI
    using ends_amp_eq [of "concat (map (\<lambda>(k, v). k @ ''='' @ toString v @ ''&'') qs) @ k" "toString v"]
    by simp
  moreover have "ends_amp (fst (generateUrl g (run g cs h1))) \<longleftrightarrow> ends_amp (encodeURI ?rest)"
  proof -
    have "encodeURI ?rest \<noteq> []"
      using encodeURI_last [of ?rest] by simp
    then show ?thesis
      unfolding url by (simp add: ends_amp_def)
  qed
  ultimately have "ends_amp (fst (generateUrl g (run g cs h1))) \<longleftrightarrow> ends_amp (toString v)"
    by simp
  with ne url ps show ?thesis
    by simp
qed

theorem generateUrl_shape_witness:
  "list_all uri_unescaped ''efetch''
   \<and> prefix ''http://eutils.ncbi.nlm.nih.gov/entrez/eutils/efetch.fcgi?''
       (fst (generateUrl (fst (createGateway (no_args\<lparr>a_method := Some ''efetch''\<rparr>) empty_heap))
          (run (fst (createGateway (no_args\<lparr>a_method := Some ''efetch''\<rparr>) empty_heap))
             [AddIds (JArr [JNum 1, JNum 2]), AddParams (object [(''term'', JStr ''x y'')])]
             (snd (createGateway (no_args\<lparr>a_method := Some ''efetch''\<rparr>) empty_heap)))))
   \<and> \<not> ends_amp
       (fst (generateUrl (fst (createGateway (no_args\<lparr>a_method := Some ''efetch''\<rparr>) empty_heap))
          (run (fst (createGateway (no_args\<lparr>a_method := Some ''efetch''\<rparr>) empty_heap))
             [AddIds (JArr [JNum 1, JNum 2]), AddParams (object [(''term'', JStr ''x y'')])]
             (snd (createGateway (no_args\<lparr>a_method := Some ''efetch''\<rparr>) empty_heap)))))"
proof -
  let ?ar = "no_args\<lparr>a_method := Some ''efetch''\<rparr>"
  let ?g = "fst (createGateway ?ar empty_heap)"
  let ?h1 = "snd (createGateway ?ar empty_heap)"
  let ?cs = "[AddIds (JArr [JNum 1, JNum 2]), AddParams (object [(''term'', JStr ''x y'')])]"
  have m: "s_method (settings ?g) = ''efetch''"
    by (simp add: createGateway_settings no_args_def)
  have u: "list_all uri_unescaped ''efetch''"
    by (simp add: uri_unescaped_def)
  have e: "\<not> ends_amp (toString (snd (last (params_of ?g (run ?g ?cs ?h1)))))"
    by code_simp
  have cg: "createGateway ?ar empty_heap = (?g, ?h1)"
    by simp
  show ?thesis
    using generateUrl_shape [OF cg, of ?cs] u e unfolding m by simp
qed

section \<open>C4: the \<^verbatim>\<open>retmode\<close> entry\<close>

text \<open>
  Claim C4 says that after construction and after any sequence of \<open>addParams\<close> and
  \<open>addIds\<close> calls the parameter mapping has a \<^verbatim>\<open>retmode\<close> entry whose value is the
  response type of the gateway. \<open>addParams\<close> assigns whatever keys it is given, so a call
  with a \<^verbatim>\<open>retmode\<close> key changes the entry while the response type of the settings stays.
\<close>

theorem retmode_overwritten_counterexample:
  "s_responseType (settings (fst (createGateway no_args empty_heap))) = ''json''
   \<and> map_of (params_of (fst (createGateway no_args empty_heap))
         (snd (addParams (fst (createGateway no_args empty_heap))
                 (object [(''retmode'', JStr ''xml'')])
                 (snd (createGateway no_args empty_heap))))) ''retmode''
       = Some (JStr ''xml'')"
  by code_simp

text \<open>
  C4, as amended: after construction the parameter mapping has the entry \<^verbatim>\<open>retmode\<close>
  with the response type of the settings as its value; after any sequence of
  \<open>addParams\<close> and \<open>addIds\<close> calls the entry is still there; and its value is still the
  response type when no call of the sequence assigns the key \<^verbatim>\<open>retmode\<close> (\<open>addIds\<close>
  never does).
\<close>

theorem retmode_invariant:
  assumes cg: "createGateway ar h0 = (g, h1)"
  shows "map_of (params_of g h1) ''retmode'' = Some (JStr (s_responseType (settings g)))
       \<and> map_of (params_of g (run g cs h1)) ''retmode'' \<noteq> None
       \<and> (list_all (\<lambda>c. \<not> writes_key ''retmode'' c) cs \<longrightarrow>
            map_of (params_of g (run g cs h1)) ''retmode''
              = Some (JStr (s_responseType (settings g))))"
proof -
  from cg have g: "g = fst (createGateway ar h0)" and h1: "h1 = snd (createGateway ar h0)"
    by simp_all
  have start: "map_of (params_of g h1) ''retmode'' = Some (JStr (s_responseType (settings g)))"
    unfolding g h1 createGateway_params by (simp add: map_of_put)
  then have "map_of (params_of g h1) ''retmode'' \<noteq> None"
    by simp
  then have present: "map_of (params_of g (run g cs h1)) ''retmode'' \<noteq> None"
    by (rule run_has_key)
  from start run_keeps [of "''retmode''" cs g h1] present show ?thesis
    by simp
qed

theorem retmode_invariant_witness:
  "list_all (\<lambda>c. \<not> writes_key ''retmode'' c)
     [AddIds (JNum 5), AddParams (object [(''term'', JStr ''x'')])]
   \<and> map_of (params_of (fst (createGateway (no_args\<lparr>a_responseType := Some ''xml''\<rparr>) empty_heap))
         (run (fst (createGateway (no_args\<lparr>a_responseType := Some ''xml''\<rparr>) empty_heap))
            [AddIds (JNum 5), AddParams (object [(''term'', JStr ''x'')])]
            (snd (createGateway (no_args\<lparr>a_responseType := Some ''xml''\<rparr>) empty_heap))))
       ''retmode''
     = Some (JStr ''xml'')"
proof -
  let ?ar = "no_args\<lparr>a_responseType := Some ''xml''\<rparr>"
  let ?g = "fst (createGateway ?ar empty_heap)"
  let ?h1 = "snd (createGateway ?ar empty_heap)"
  let ?cs = "[AddIds (JNum 5), AddParams (object [(''term'', JStr ''x'')])]"
  have r: "s_responseType (settings ?g) = ''xml''"
    by (simp add: createGateway_settings no_args_def)
  have w: "list_all (\<lambda>c. \<not> writes_key ''retmode'' c) ?cs"
    by (simp add: object_single)
  have cg: "createGateway ?ar empty_heap = (?g, ?h1)"
    by simp
  show ?thesis
    using retmode_invariant [OF cg, of ?cs] w unfolding r by simp
qed

section \<open>C5: gateways and their parameter objects\<close>






section \<open>C6: \<open>addIds\<close>\<close>

lemma params_of_addIds:
  "map_of (params_of g (snd (addIds g ids h))) ''id''
     = Some (if isArray ids then JStr (join (elements ids)) else ids)"
  by (simp add: addIds_addParams params_of_addParams extend_obj_def map_of_put)

lemma join_123: "join [JNum 1, JNum 2, JNum 3] = ''1,2,3''"
  by code_simp

text \<open>
  Claim C6 says that \<open>addIds\<close> takes a scalar or an array interchangeably and stores the
  comma-joined string of its argument under the key \<^verbatim>\<open>id\<close>. The code joins an array and
  passes every other argument through as it is: \<^verbatim>\<open>addIds(789)\<close> stores the number 789,
  not the string \<^verbatim>\<open>"789"\<close>, and it does not leave the store that \<^verbatim>\<open>addIds([789])\<close> leaves.
\<close>

theorem addIds_scalar_counterexample:
  "map_of (params_of (fst (createGateway no_args empty_heap))
       (snd (addIds (fst (createGateway no_args empty_heap)) (JNum 789)
               (snd (createGateway no_args empty_heap))))) ''id''
     = Some (JNum 789)
   \<and> map_of (params_of (fst (createGateway no_args empty_heap))
       (snd (addIds (fst (createGateway no_args empty_heap)) (JNum 789)
               (snd (createGateway no_args empty_heap))))) ''id''
     \<noteq> Some (JStr ''789'')
   \<and> addIds (fst (createGateway no_args empty_heap)) (JNum 789)
         (snd (createGateway no_args empty_heap))
     \<noteq> addIds (fst (createGateway no_args empty_heap)) (JArr [JNum 789])
         (snd (createGateway no_args empty_heap))"
proof -
  let ?g = "fst (createGateway no_args empty_heap)"
  let ?h = "snd (createGateway no_args empty_heap)"
  have n: "map_of (params_of ?g (snd (addIds ?g (JNum 789) ?h))) ''id'' = Some (JNum 789)"
    by (simp add: params_of_addIds)
  have a: "map_of (params_of ?g (snd (addIds ?g (JArr [JNum 789]) ?h))) ''id''
      = Some (JStr (join [JNum 789]))"
    by (simp add: params_of_addIds del: join.simps)
  from n a have "addIds ?g (JNum 789) ?h \<noteq> addIds ?g (JArr [JNum 789]) ?h"
    by auto
  with n show ?thesis
    by simp
qed

text \<open>
  C6, as amended: \<open>addIds\<close> stores an array under the key \<^verbatim>\<open>id\<close> as the comma-joined
  string that \<open>join\<close> makes of it, and every other argument unchanged (a number stays a
  number); either way the stored value and the argument are the same when written as
  strings. \<^verbatim>\<open>addIds([1,2,3])\<close> and \<^verbatim>\<open>addIds("1,2,3")\<close> give the same store, with the value
  \<^verbatim>\<open>"1,2,3"\<close> under \<^verbatim>\<open>id\<close>.
\<close>

theorem addIds_stores:
  "addIds g (JArr [JNum 1, JNum 2, JNum 3]) h = addIds g (JStr ''1,2,3'') h
   \<and> map_of (params_of g (snd (addIds g (JStr ''1,2,3'') h))) ''id'' = Some (JStr ''1,2,3'')
   \<and> map_of (params_of g (snd (addIds g (JArr [JNum 1, JNum 2, JNum 3]) h))) ''id''
       = Some (JStr ''1,2,3'')
   \<and> map_of (params_of g (snd (addIds g (JArr xs) h))) ''id'' = Some (JStr (join xs))
   \<and> map_of (params_of g (snd (addIds g ids h))) ''id''
       = Some (if isArray ids then JStr (join (elements ids)) else ids)
   \<and> (\<exists>v. map_of (params_of g (snd (addIds g ids h))) ''id'' = Some v
            \<and> toString v = toString ids)"
proof -
  have same: "addIds g (JArr [JNum 1, JNum 2, JNum 3]) h = addIds g (JStr ''1,2,3'') h"
    by (simp add: addIds_addParams join_123 del: join.simps)
  have str: "map_of (params_of g (snd (addIds g (JStr ''1,2,3'') h))) ''id''
      = Some (JStr ''1,2,3'')"
    by (simp add: params_of_addIds)
  have arr: "map_of (params_of g (snd (addIds g (JArr xs) h))) ''id'' = Some (JStr (join xs))"
    for xs
    by (simp add: params_of_addIds)
  have arr3: "map_of (params_of g (snd (addIds g (JArr [JNum 1, JNum 2, JNum 3]) h))) ''id''
      = Some (JStr ''1,2,3'')"
    unfolding arr join_123 by (rule refl)
  have gen: "map_of (params_of g (snd (addIds g ids h))) ''id''
       = Some (if isArray ids then JStr (join (elements ids)) else ids)"
    by (rule params_of_addIds)
  have "toString (if isArray ids then JStr (join (elements ids)) else ids) = toString ids"
    by (cases ids) simp_all
  then have any: "\<exists>v. map_of (params_of g (snd (addIds g ids h))) ''id'' = Some v
      \<and> toString v = toString ids"
    by (simp add: params_of_addIds)
  from same str arr3 arr [of xs] gen any show ?thesis
    by (simp only: simp_thms)
qed

section \<open>The named constructors on any store\<close>

lemma not_index_alpha: "\<not> is_digit c \<Longrightarrow> \<not> is_array_index (c # cs)"
  by (simp add: is_array_index_def)

lemma put_new_name:
  "k \<notin> set (map fst ps) \<Longrightarrow> \<not> is_array_index k \<Longrightarrow> put k v ps = ps @ [(k, v)]"
  by (simp add: put_def)

lemma object_search:
  "object [(''db'', a), (''term'', b), (''retstart'', c), (''retmax'', d)]
     = [(''db'', a), (''term'', b), (''retstart'', c), (''retmax'', d)]"
  by (simp add: object_def extend_obj_def put_new_name not_index_alpha is_digit_def)

lemma object_links:
  "object [(''db'', a), (''dbfrom'', b), (''cmd'', c)] = [(''db'', a), (''dbfrom'', b), (''cmd'', c)]"
  by (simp add: object_def extend_obj_def put_new_name not_index_alpha is_digit_def)

lemma createGateway_new_params:
  "params_of (fst (createGateway (no_args\<lparr>a_documentType := d, a_responseType := r,
        a_params := Some (fresh h)\<rparr>) (snd (alloc ob h))))
     (snd (createGateway (no_args\<lparr>a_documentType := d, a_responseType := r,
        a_params := Some (fresh h)\<rparr>) (snd (alloc ob h))))
   = put ''retmode'' (JStr (case r of None \<Rightarrow> ''json'' | Some x \<Rightarrow> x)) ob"
  unfolding createGateway_params
  by (simp add: createGateway_settings alloc_def no_args_def)

lemma pubmedSearch_params:
  "params_of (fst (pubmedSearch q s e h)) (snd (pubmedSearch q s e h)) =
     [(''db'', JStr ''pubmed''), (''term'', q), (''retstart'', JNum s),
      (''retmax'', JNum (e - s)), (''retmode'', JStr ''json'')]"
proof -
  have "pubmedSearch q s e h =
      createGateway (no_args\<lparr>a_documentType := Some ''esearch'', a_responseType := None,
          a_params := Some (fresh h)\<rparr>)
        (snd (alloc (object [(''db'', JStr ''pubmed''), (''term'', q), (''retstart'', JNum s),
                 (''retmax'', JNum (e - s))]) h))"
    by (simp add: pubmedSearch_def alloc_def no_args_def)
  then show ?thesis
    unfolding createGateway_new_params object_search
    by (simp add: createGateway_new_params object_search put_new_name not_index_alpha is_digit_def)
qed

lemma object_db: "object [(''db'', a)] = [(''db'', a)]"
  by (rule object_single)

lemma pubmedSearch_method: "s_method (settings (fst (pubmedSearch q s e h))) = ''esearch''"
  by (simp add: pubmedSearch_def createGateway_settings no_args_def split: prod.splits)

lemma pubmedRecord_unfold:
  "pubmedRecord ids h =
     (fst (createGateway (no_args\<lparr>a_documentType := Some ''efetch'',
              a_responseType := Some ''xml'', a_params := Some (fresh h)\<rparr>)
            (snd (alloc (object [(''db'', JStr ''pubmed'')]) h))),
      snd (addIds
        (fst (createGateway (no_args\<lparr>a_documentType := Some ''efetch'',
              a_responseType := Some ''xml'', a_params := Some (fresh h)\<rparr>)
            (snd (alloc (object [(''db'', JStr ''pubmed'')]) h))))
        ids
        (snd (createGateway (no_args\<lparr>a_documentType := Some ''efetch'',
              a_responseType := Some ''xml'', a_params := Some (fresh h)\<rparr>)
            (snd (alloc (object [(''db'', JStr ''pubmed'')]) h))))))"
  by (simp add: pubmedRecord_def alloc_def split: prod.splits)

lemma pubmedRecord_params:
  "params_of (fst (pubmedRecord ids h)) (snd (pubmedRecord ids h)) =
     [(''db'', JStr ''pubmed''), (''retmode'', JStr ''xml''),
      (''id'', if isArray ids then JStr (join (elements ids)) else ids)]"
  unfolding pubmedRecord_unfold fst_conv snd_conv addIds_addParams params_of_addParams
    createGateway_new_params object_db
  by (simp add: extend_obj_def put_new_name not_index_alpha is_digit_def)

section \<open>C7: the search scenario\<close>

text \<open>
  Claim C7: the search constructor with the query \<^verbatim>\<open>"cancer"\<close>, start 0 and end 20 gives
  a gateway whose parameters are \<^verbatim>\<open>db=pubmed\<close>, \<^verbatim>\<open>term=cancer\<close>, \<^verbatim>\<open>retstart=0\<close>,
  \<^verbatim>\<open>retmax=20\<close> and \<^verbatim>\<open>retmode=json\<close>, in this order, and whose URL is
  \<^verbatim>\<open>http://eutils.ncbi.nlm.nih.gov/entrez/eutils/esearch.fcgi?db=pubmed&term=cancer&retstart=0&retmax=20&retmode=json\<close>;
  \<^verbatim>\<open>retmax\<close> is the end minus the start for every query, start and end.
\<close>

theorem pubmedSearch_cancer:
  "params_of (fst (pubmedSearch (JStr ''cancer'') 0 20 h))
      (snd (pubmedSearch (JStr ''cancer'') 0 20 h))
     = [(''db'', JStr ''pubmed''), (''term'', JStr ''cancer''), (''retstart'', JNum 0),
        (''retmax'', JNum 20), (''retmode'', JStr ''json'')]
   \<and> fst (generateUrl (fst (pubmedSearch (JStr ''cancer'') 0 20 h))
           (snd (pubmedSearch (JStr ''cancer'') 0 20 h)))
     = ''http://eutils.ncbi.nlm.nih.gov/entrez/eutils/esearch.fcgi?db=pubmed&term=cancer&retstart=0&retmax=20&retmode=json''
   \<and> map_of (params_of (fst (pubmedSearch query start end' h))
               (snd (pubmedSearch query start end' h))) ''retmax''
     = Some (JNum (end' - start))"
proof -
  have ps: "params_of (fst (pubmedSearch (JStr ''cancer'') 0 20 h))
      (snd (pubmedSearch (JStr ''cancer'') 0 20 h))
     = [(''db'', JStr ''pubmed''), (''term'', JStr ''cancer''), (''retstart'', JNum 0),
        (''retmax'', JNum 20), (''retmode'', JStr ''json'')]"
    by (simp add: pubmedSearch_params)
  have ev: "encodeURI (butlast (params_loop
       (''http://eutils.ncbi.nlm.nih.gov/entrez/eutils/'' @ ''esearch'' @ ''.fcgi?'')
       [(''db'', JStr ''pubmed''), (''term'', JStr ''cancer''), (''retstart'', JNum 0),
        (''retmax'', JNum 20), (''retmode'', JStr ''json'')]))
     = ''http://eutils.ncbi.nlm.nih.gov/entrez/eutils/esearch.fcgi?db=pubmed&term=cancer&retstart=0&retmax=20&retmode=json''"
    by code_simp
  have url: "fst (generateUrl (fst (pubmedSearch (JStr ''cancer'') 0 20 h))
           (snd (pubmedSearch (JStr ''cancer'') 0 20 h)))
     = ''http://eutils.ncbi.nlm.nih.gov/entrez/eutils/esearch.fcgi?db=pubmed&term=cancer&retstart=0&retmax=20&retmode=json''"
    unfolding generateUrl_fst ps pubmedSearch_method by (rule ev)
  have rm: "map_of (params_of (fst (pubmedSearch query start end' h))
               (snd (pubmedSearch query start end' h))) ''retmax''
     = Some (JNum (end' - start))"
    by (simp add: pubmedSearch_params)
  from ps url rm show ?thesis
    by (simp only: simp_thms)
qed

section \<open>C8: the record constructor\<close>

text \<open>
  Claim C8: for every argument \<open>ids\<close> the record constructor gives a gateway whose
  parameter mapping has \<^verbatim>\<open>retmode=xml\<close>, in place of the default \<^verbatim>\<open>json\<close>.
\<close>

theorem pubmedRecord_xml:
  "map_of (params_of (fst (pubmedRecord ids h)) (snd (pubmedRecord ids h))) ''retmode''
     = Some (JStr ''xml'')
   \<and> s_responseType (settings (fst (pubmedRecord ids h))) = ''xml''"
proof -
  have "s_responseType (settings (fst (pubmedRecord ids h))) = ''xml''"
    unfolding pubmedRecord_unfold fst_conv createGateway_settings by simp
  then show ?thesis
    by (simp add: pubmedRecord_params)
qed

section \<open>C9: \<open>addParams\<close> twice\<close>

text \<open>
  Claim C9: when \<open>addParams\<close> is called with one mapping and then with another, the value
  of the later call stays for every key that both have, and each call returns the
  resulting parameter mapping. Each call returns the reference of the gateway's
  parameter object, which then holds the merge; after both calls a key has the value
  of the second mapping if it is there, else that of the first, else the value it had.
  The hypotheses say that the two arguments are objects: no key stands twice.
\<close>

theorem addParams_last_write_wins:
  assumes d1: "distinct (map fst p1)" and d2: "distinct (map fst p2)"
  shows "fst (addParams g p1 h) = s_params (settings g)
       \<and> fst (addParams g p2 (snd (addParams g p1 h))) = s_params (settings g)
       \<and> objs (snd (addParams g p1 h)) (fst (addParams g p1 h)) = extend_obj (params_of g h) p1
       \<and> objs (snd (addParams g p2 (snd (addParams g p1 h))))
              (fst (addParams g p2 (snd (addParams g p1 h))))
           = extend_obj (extend_obj (params_of g h) p1) p2
       \<and> map_of (extend_obj (extend_obj (params_of g h) p1) p2) k
           = (case map_of p2 k of
                Some v \<Rightarrow> Some v
              | None \<Rightarrow> (case map_of p1 k of Some v \<Rightarrow> Some v | None \<Rightarrow> map_of (params_of g h) k))
       \<and> (map_of p1 k \<noteq> None \<and> map_of p2 k \<noteq> None \<longrightarrow>
            map_of (params_of g (snd (addParams g p2 (snd (addParams g p1 h))))) k = map_of p2 k)"
proof -
  have r1: "fst (addParams g p1 h) = s_params (settings g)"
    by (simp add: addParams_def Let_def)
  have r2: "fst (addParams g p2 (snd (addParams g p1 h))) = s_params (settings g)"
    by (simp add: addParams_def Let_def)
  have o1: "objs (snd (addParams g p1 h)) (s_params (settings g)) = extend_obj (params_of g h) p1"
    using params_of_addParams [of g p1 h] by (simp add: params_of_def)
  have o2: "objs (snd (addParams g p2 (snd (addParams g p1 h)))) (s_params (settings g))
      = extend_obj (extend_obj (params_of g h) p1) p2"
    using params_of_addParams [of g p2 "snd (addParams g p1 h)"] params_of_addParams [of g p1 h]
    by (simp add: params_of_def)
  have m: "map_of (extend_obj (extend_obj (params_of g h) p1) p2) k
      = (case map_of p2 k of
           Some v \<Rightarrow> Some v
         | None \<Rightarrow> (case map_of p1 k of Some v \<Rightarrow> Some v | None \<Rightarrow> map_of (params_of g h) k))"
    unfolding map_of_extend_obj [OF d2] map_of_extend_obj [OF d1] by (rule refl)
  have w: "map_of p1 k \<noteq> None \<and> map_of p2 k \<noteq> None \<longrightarrow>
      map_of (params_of g (snd (addParams g p2 (snd (addParams g p1 h))))) k = map_of p2 k"
    unfolding params_of_addParams m by (simp split: option.splits)
  show ?thesis
    unfolding r1 r2 using o1 o2 m w by (simp only: simp_thms)
qed

theorem addParams_last_write_wins_witness:
  "distinct (map fst [(''term'', JStr ''a''), (''db'', JStr ''pubmed'')])
   \<and> distinct (map fst [(''term'', JStr ''b''), (''retmax'', JNum 5)])
   \<and> map_of [(''term'', JStr ''a''), (''db'', JStr ''pubmed'')] ''term'' \<noteq> None
   \<and> map_of (params_of (fst (createGateway no_args empty_heap))
        (snd (addParams (fst (createGateway no_args empty_heap))
               [(''term'', JStr ''b''), (''retmax'', JNum 5)]
               (snd (addParams (fst (createGateway no_args empty_heap))
                       [(''term'', JStr ''a''), (''db'', JStr ''pubmed'')]
                       (snd (createGateway no_args empty_heap))))))) ''term''
     = Some (JStr ''b'')"
proof -
  have d1: "distinct (map fst [(''term'', JStr ''a''), (''db'', JStr ''pubmed'')])"
    by simp
  have d2: "distinct (map fst [(''term'', JStr ''b''), (''retmax'', JNum 5)])"
    by simp
  show ?thesis
    using addParams_last_write_wins [OF d1 d2, of "fst (createGateway no_args empty_heap)"
        "snd (createGateway no_args empty_heap)" "''term''"]
    by simp
qed

section \<open>C10: reserved characters in a parameter value\<close>

text \<open>
  For every gateway and every parameter of its mapping, the value enters the URL as
  \<open>encodeURI\<close> of its string, between the encoded text before it and the encoded text
  after it: no other escaping is applied to a value.
\<close>

lemma generateUrl_value_encoded:
  assumes ps: "params_of g h = qs @ (k, x) # rs"
  shows "fst (generateUrl g h) =
     encodeURI (''http://eutils.ncbi.nlm.nih.gov/entrez/eutils/'' @ s_method (settings g)
         @ ''.fcgi?'' @ concat (map (\<lambda>(k, v). k @ ''='' @ toString v @ ''&'') qs) @ k @ ''='')
       @ encodeURI (toString x)
       @ encodeURI (butlast (''&'' @ concat (map (\<lambda>(k, v). k @ ''='' @ toString v @ ''&'') rs)))"
proof -
  have "butlast (params_loop
       (''http://eutils.ncbi.nlm.nih.gov/entrez/eutils/'' @ s_method (settings g) @ ''.fcgi?'')
       (qs @ (k, x) # rs)) =
     (''http://eutils.ncbi.nlm.nih.gov/entrez/eutils/'' @ s_method (settings g)
         @ ''.fcgi?'' @ concat (map (\<lambda>(k, v). k @ ''='' @ toString v @ ''&'') qs) @ k @ ''='')
       @ toString x
       @ butlast (''&'' @ concat (map (\<lambda>(k, v). k @ ''='' @ toString v @ ''&'') rs))"
    by (simp add: params_loop_concat butlast_append)
  then show ?thesis
    by (simp only: generateUrl_fst ps encodeURI_append)
qed

lemma reserved_unescaped: "list_all uri_unescaped ''&=?#;/:@+$,''"
  by (simp add: uri_unescaped_def)

text \<open>
  Claim C10: \<open>generateUrl\<close> applies \<^verbatim>\<open>encodeURI\<close> to the assembled URL as a whole, so the
  reserved characters of a parameter value, such as \<^verbatim>\<open>&\<close>, \<^verbatim>\<open>=\<close>, \<^verbatim>\<open>?\<close> and \<^verbatim>\<open>#\<close>, stand
  unescaped in the URL, where an \<^verbatim>\<open>&\<close> of the value reads as a separator. For every
  search term \<open>v\<close> the URL of the search gateway holds \<open>encodeURI v\<close> between the text
  before the term and the text after it; \<^verbatim>\<open>encodeURI\<close> maps \<^verbatim>\<open>&=?#\<close> to itself; and a term
  of unescaped characters stands in the URL as it is.
\<close>

theorem generateUrl_reserved_verbatim:
  "fst (generateUrl (fst (pubmedSearch (JStr v) 0 20 h)) (snd (pubmedSearch (JStr v) 0 20 h)))
     = ''http://eutils.ncbi.nlm.nih.gov/entrez/eutils/esearch.fcgi?db=pubmed&term=''
         @ encodeURI v @ ''&retstart=0&retmax=20&retmode=json''
   \<and> encodeURI ''&=?#'' = ''&=?#''
   \<and> (list_all uri_unescaped v \<longrightarrow>
        fst (generateUrl (fst (pubmedSearch (JStr v) 0 20 h)) (snd (pubmedSearch (JStr v) 0 20 h)))
          = ''http://eutils.ncbi.nlm.nih.gov/entrez/eutils/esearch.fcgi?db=pubmed&term=''
              @ v @ ''&retstart=0&retmax=20&retmode=json'')"
proof -
  have pre: "encodeURI ''http://eutils.ncbi.nlm.nih.gov/entrez/eutils/esearch.fcgi?db=pubmed&term=''
      = ''http://eutils.ncbi.nlm.nih.gov/entrez/eutils/esearch.fcgi?db=pubmed&term=''"
    by code_simp
  have post: "encodeURI ''&retstart=0&retmax=20&retmode=json'' = ''&retstart=0&retmax=20&retmode=json''"
    by code_simp
  have n0: "string_of_int 0 = ''0''" and n20: "string_of_int 20 = ''20''"
    by code_simp+
  have raw: "butlast (params_loop
       (''http://eutils.ncbi.nlm.nih.gov/entrez/eutils/'' @ ''esearch'' @ ''.fcgi?'')
       [(''db'', JStr ''pubmed''), (''term'', JStr v), (''retstart'', JNum 0),
        (''retmax'', JNum (20 - 0)), (''retmode'', JStr ''json'')])
     = ''http://eutils.ncbi.nlm.nih.gov/entrez/eutils/esearch.fcgi?db=pubmed&term='' @ v
         @ ''&retstart=0&retmax=20&retmode=json''"
    by (simp add: n0 n20 butlast_append)
  have url: "fst (generateUrl (fst (pubmedSearch (JStr v) 0 20 h))
        (snd (pubmedSearch (JStr v) 0 20 h)))
     = ''http://eutils.ncbi.nlm.nih.gov/entrez/eutils/esearch.fcgi?db=pubmed&term=''
         @ encodeURI v @ ''&retstart=0&retmax=20&retmode=json''"
    unfolding generateUrl_fst pubmedSearch_params pubmedSearch_method raw encodeURI_append pre post
    by (rule refl)
  have four: "encodeURI ''&=?#'' = ''&=?#''"
    by code_simp
  from url four show ?thesis
    by (simp add: encodeURI_unescaped)
qed

theorem generateUrl_reserved_verbatim_witness:
  "list_all uri_unescaped ''a&b=c?d#e''
   \<and> fst (generateUrl (fst (pubmedSearch (JStr ''a&b=c?d#e'') 0 20 empty_heap))
           (snd (pubmedSearch (JStr ''a&b=c?d#e'') 0 20 empty_heap)))
     = ''http://eutils.ncbi.nlm.nih.gov/entrez/eutils/esearch.fcgi?db=pubmed&term=a&b=c?d#e&retstart=0&retmax=20&retmode=json''"
proof -
  have u: "list_all uri_unescaped ''a&b=c?d#e''"
    by (simp add: uri_unescaped_def)
  from generateUrl_reserved_verbatim [of "''a&b=c?d#e''" empty_heap] u
  have "fst (generateUrl (fst (pubmedSearch (JStr ''a&b=c?d#e'') 0 20 empty_heap))
           (snd (pubmedSearch (JStr ''a&b=c?d#e'') 0 20 empty_heap)))
     = ''http://eutils.ncbi.nlm.nih.gov/entrez/eutils/esearch.fcgi?db=pubmed&term=''
         @ ''a&b=c?d#e'' @ ''&retstart=0&retmax=20&retmode=json''"
    by blast
  with u show ?thesis
    by simp
qed

section \<open>C2: test mode\<close>

lemma createGateway_no_params:
  "a_params ar = None \<Longrightarrow>
   params_of (fst (createGateway ar h)) (snd (createGateway ar h))
     = [(''retmode'', JStr (case a_responseType ar of None \<Rightarrow> ''json'' | Some r \<Rightarrow> r))]"
  unfolding createGateway_params
  by (simp add: createGateway_settings put_new_name not_index_alpha is_digit_def)

lemma send_fst:
  "fst (send popsicle g h) =
     (if truthy (this_test g)
      then ([], Fulfilled (TestString (''Test call to NCBI eUtils: '' @ fst (generateUrl g h))))
      else ([fst (generateUrl g h)],
            (case popsicle (fst (generateUrl g h)) of
               Fulfilled r \<Rightarrow> Fulfilled (Response r)
             | Rejected e \<Rightarrow> Rejected e)))"
  by (simp add: send_def generateUrl_def getBase_def Let_def split: prod.splits)

lemma send_snd: "this_method (snd (send popsicle g h)) = this_method g"
  by (simp add: send_def generateUrl_def getBase_def Let_def split: prod.splits)

lemma send_test_mode:
  "truthy (this_test g) \<Longrightarrow>
   fst (send popsicle g h)
     = ([], Fulfilled (TestString (''Test call to NCBI eUtils: '' @ fst (generateUrl g h))))"
  by (simp add: send_fst)

lemma url_default:
  "fst (generateUrl (fst (createGateway (no_args\<lparr>a_test := t\<rparr>) h))
         (snd (createGateway (no_args\<lparr>a_test := t\<rparr>) h)))
     = ''http://eutils.ncbi.nlm.nih.gov/entrez/eutils/esearch.fcgi?retmode=json''"
proof -
  have ev: "encodeURI (butlast (params_loop
       (''http://eutils.ncbi.nlm.nih.gov/entrez/eutils/'' @ ''esearch'' @ ''.fcgi?'')
       [(''retmode'', JStr ''json'')]))
     = ''http://eutils.ncbi.nlm.nih.gov/entrez/eutils/esearch.fcgi?retmode=json''"
    by code_simp
  have ps: "params_of (fst (createGateway (no_args\<lparr>a_test := t\<rparr>) h))
       (snd (createGateway (no_args\<lparr>a_test := t\<rparr>) h)) = [(''retmode'', JStr ''json'')]"
    by (simp add: createGateway_no_params no_args_def)
  have m: "s_method (settings (fst (createGateway (no_args\<lparr>a_test := t\<rparr>) h))) = ''esearch''"
    by (simp add: createGateway_settings no_args_def)
  show ?thesis
    unfolding generateUrl_fst ps m by (rule ev)
qed

text \<open>
  Claim C2 says that a gateway whose test flag is set, for instance by the argument
  \<^verbatim>\<open>test\<close> of the constructor, sends nothing and resolves with
  \<^verbatim>\<open>'Test call to NCBI eUtils: ' + url\<close>. The constructor stores the flag in
  \<^verbatim>\<open>this.settings.test\<close>, and \<open>send\<close> reads \<^verbatim>\<open>this.test\<close>, which nothing sets: with
  \<^verbatim>\<open>createGateway({test : true})\<close> the flag of the settings is true and \<open>send\<close> issues the
  request all the same and returns what the HTTP client returns. (\<open>send_test_mode\<close>
  above is the behaviour of the claim, for a gateway whose own property \<^verbatim>\<open>test\<close> is
  set.)
\<close>

theorem send_ignores_settings_test:
  "s_test (settings (fst (createGateway (no_args\<lparr>a_test := Some True\<rparr>) h))) = True
   \<and> fst (send popsicle (fst (createGateway (no_args\<lparr>a_test := Some True\<rparr>) h))
           (snd (createGateway (no_args\<lparr>a_test := Some True\<rparr>) h)))
     = ([''http://eutils.ncbi.nlm.nih.gov/entrez/eutils/esearch.fcgi?retmode=json''],
        (case popsicle ''http://eutils.ncbi.nlm.nih.gov/entrez/eutils/esearch.fcgi?retmode=json'' of
           Fulfilled r \<Rightarrow> Fulfilled (Response r)
         | Rejected e \<Rightarrow> Rejected e))"
  by (simp add: send_fst url_default createGateway_own createGateway_settings)

section \<open>C3: \<open>get\<close>\<close>

text \<open>
  What \<open>get\<close> returns, in terms of \<open>send\<close>; a rejected \<open>send\<close> rejects \<open>get\<close> with the
  same error whatever the callback is, and a fulfilled one passes the parser to the
  callback and returns the callback's promise.
\<close>

lemma get_fst:
  "fst (get createParser callback popsicle g h) =
     (fst (fst (send popsicle g h)),
      (case snd (fst (send popsicle g h)) of
         Rejected e \<Rightarrow> Rejected e
       | Fulfilled document \<Rightarrow>
           (case createParser (body_of document) (this_method g) of
              Rejected e \<Rightarrow> Rejected e
            | Fulfilled parser \<Rightarrow> callback parser)))"
proof -
  obtain io p g' where s: "send popsicle g h = ((io, p), g')"
    by (metis prod.exhaust)
  with send_snd [of popsicle g h] have "this_method g' = this_method g"
    by simp
  then show ?thesis
    by (simp add: get_def s split: promise.splits)
qed

lemma get_rejected:
  "snd (fst (send popsicle g h)) = Rejected e \<Longrightarrow>
   snd (fst (get createParser callback popsicle g h)) = Rejected e"
  by (simp add: get_fst)

lemma get_network_failure:
  "\<not> truthy (this_test g) \<Longrightarrow> popsicle (fst (generateUrl g h)) = Rejected e \<Longrightarrow>
   fst (get createParser callback popsicle g h) = ([fst (generateUrl g h)], Rejected e)"
  by (simp add: get_fst send_fst)

lemma get_fulfilled:
  "\<not> truthy (this_test g) \<Longrightarrow> popsicle (fst (generateUrl g h)) = Fulfilled r \<Longrightarrow>
   createParser (JStr (body r)) (this_method g) = Fulfilled parser \<Longrightarrow>
   fst (get createParser callback popsicle g h) = ([fst (generateUrl g h)], callback parser)"
  by (simp add: get_fst send_fst)

lemma url_esummary:
  "fst (generateUrl (fst (createGateway (no_args\<lparr>a_method := Some ''esummary''\<rparr>) h))
         (snd (createGateway (no_args\<lparr>a_method := Some ''esummary''\<rparr>) h)))
     = ''http://eutils.ncbi.nlm.nih.gov/entrez/eutils/esummary.fcgi?retmode=json''"
proof -
  have ev: "encodeURI (butlast (params_loop
       (''http://eutils.ncbi.nlm.nih.gov/entrez/eutils/'' @ ''esummary'' @ ''.fcgi?'')
       [(''retmode'', JStr ''json'')]))
     = ''http://eutils.ncbi.nlm.nih.gov/entrez/eutils/esummary.fcgi?retmode=json''"
    by code_simp
  have ps: "params_of (fst (createGateway (no_args\<lparr>a_method := Some ''esummary''\<rparr>) h))
       (snd (createGateway (no_args\<lparr>a_method := Some ''esummary''\<rparr>) h))
     = [(''retmode'', JStr ''json'')]"
    by (simp add: createGateway_no_params no_args_def)
  have m: "s_method (settings (fst (createGateway (no_args\<lparr>a_method := Some ''esummary''\<rparr>) h)))
      = ''esummary''"
    by (simp add: createGateway_settings no_args_def)
  show ?thesis
    unfolding generateUrl_fst ps m by (rule ev)
qed

text \<open>
  Claim C3 says that \<open>get\<close> makes the parser from the body of the response and the
  method name of the gateway, calls the handler with it and returns the handler's
  result, and that a failure of \<open>send\<close> reaches the caller unchanged. The second
  argument of \<^verbatim>\<open>createParser\<close> is \<^verbatim>\<open>this.method\<close>; the method name is in
  \<^verbatim>\<open>this.settings.method\<close>, where \<open>getBase\<close> reads it. For
  \<^verbatim>\<open>createGateway({method : 'esummary'})\<close>, a response with the body \<^verbatim>\<open>{}\<close>, a parser
  factory that returns its two arguments and a handler that returns its argument,
  \<open>get\<close> requests the \<^verbatim>\<open>esummary\<close> URL and resolves with the body and \<^verbatim>\<open>undefined\<close>.
\<close>

theorem get_parser_without_method:
  "s_method (settings (fst (createGateway (no_args\<lparr>a_method := Some ''esummary''\<rparr>) h)))
     = ''esummary''
   \<and> fst (get (\<lambda>b m. Fulfilled (b, m)) Fulfilled
           (\<lambda>url. Fulfilled \<lparr>status = 200, body = ''{}''\<rparr>)
           (fst (createGateway (no_args\<lparr>a_method := Some ''esummary''\<rparr>) h))
           (snd (createGateway (no_args\<lparr>a_method := Some ''esummary''\<rparr>) h)))
     = ([''http://eutils.ncbi.nlm.nih.gov/entrez/eutils/esummary.fcgi?retmode=json''],
        Fulfilled (JStr ''{}'', JUndefined))"
proof -
  have m: "s_method (settings (fst (createGateway (no_args\<lparr>a_method := Some ''esummary''\<rparr>) h)))
      = ''esummary''"
    by (simp add: createGateway_settings no_args_def)
  then show ?thesis
    by (simp add: get_fst send_fst url_esummary createGateway_own)
qed

section \<open>The named constructors: method, document type and parameter object\<close>

text \<open>
  The named constructors pass the key \<^verbatim>\<open>documentType\<close>; the gateway reads the key
  \<^verbatim>\<open>method\<close>, so the method of all four is the default. Each of them holds the
  parameter object of its own literal.
\<close>

lemma named_constructors_method:
  "s_method (settings (fst (pubmedSearch q s e h))) = ''esearch''"
  "s_method (settings (fst (pubmedSummary ids h))) = ''esearch''"
  "s_method (settings (fst (pubmedRecord ids h))) = ''esearch''"
  "s_method (settings (fst (pubmedLinks i h))) = ''esearch''"
  by (simp_all add: pubmedSearch_def pubmedSummary_def pubmedRecord_def pubmedLinks_def
      createGateway_settings no_args_def alloc_def case_prod_beta)

lemma named_constructors_documentType:
  "s_documentType (settings (fst (pubmedSearch q s e h))) = Some ''esearch''"
  "s_documentType (settings (fst (pubmedSummary ids h))) = Some ''esummary''"
  "s_documentType (settings (fst (pubmedRecord ids h))) = Some ''efetch''"
  "s_documentType (settings (fst (pubmedLinks i h))) = Some ''elink''"
  by (simp_all add: pubmedSearch_def pubmedSummary_def pubmedRecord_def pubmedLinks_def
      createGateway_settings no_args_def alloc_def case_prod_beta)

lemma named_constructors_params:
  "s_params (settings (fst (pubmedSearch q s e h))) = fresh h"
  "s_params (settings (fst (pubmedSummary ids h))) = fresh h"
  "s_params (settings (fst (pubmedRecord ids h))) = fresh h"
  "s_params (settings (fst (pubmedLinks i h))) = fresh h"
  by (simp_all add: pubmedSearch_def pubmedSummary_def pubmedRecord_def pubmedLinks_def
      createGateway_settings no_args_def alloc_def case_prod_beta)

lemma named_constructors_fresh:
  "fresh (snd (pubmedSearch q s e h)) = fresh h + 2"
  "fresh (snd (pubmedSummary ids h)) = fresh h + 2"
  "fresh (snd (pubmedRecord ids h)) = fresh h + 2"
  "fresh (snd (pubmedLinks i h)) = fresh h + 2"
  by (simp_all add: pubmedSearch_def pubmedSummary_def pubmedRecord_def pubmedLinks_def
      createGateway_def addIds_def addParams_def no_args_def alloc_def Let_def case_prod_beta)

lemma pubmedSummary_url_example:
  "fst (generateUrl (fst (pubmedSummary (JArr [JNum 1, JNum 2, JNum 3]) empty_heap))
         (snd (pubmedSummary (JArr [JNum 1, JNum 2, JNum 3]) empty_heap)))
     = ''http://eutils.ncbi.nlm.nih.gov/entrez/eutils/esearch.fcgi?db=pubmed&retmode=json&id=1,2,3''"
  by code_simp

end
